theory Spec2Isabelle
  imports Main
begin

section \<open>JavaScript values\<close>

text \<open>
  The values that travel through \<^verbatim>\<open>src/services/api.js\<close> and
  \<^verbatim>\<open>src/components/Dashboard.js\<close>: what \<^verbatim>\<open>JSON.parse\<close> can produce, together
  with \<^verbatim>\<open>undefined\<close>. An object is the list of its own properties, looked up by
  name (the first binding of a name is the property). A string is the list of its code
  units; every string literal of the program lies in the range below 256 (ASCII and
  Latin-1), which is what \<^typ>\<open>char\<close> holds. Numbers are the integer-valued ones; the
  program does nothing with a number but test it for zero and print it in a message.
\<close>

datatype jsval =
    JUndefined
  | JNull
  | JBool bool
  | JNum int
  | JStr string
  | JArr "jsval list"
  | JObj "(string \<times> jsval) list"

text \<open>
  Every exception of the program is an \<^verbatim>\<open>Error\<close> built by \<^verbatim>\<open>new Error(msg)\<close>, or the
  \<^verbatim>\<open>TypeError\<close> that the runtime raises when a property of \<^verbatim>\<open>null\<close> or \<^verbatim>\<open>undefined\<close>
  is read. Both carry a message.
\<close>

datatype js_error = Error string | TypeError string

fun message :: "js_error \<Rightarrow> string" where
  "message (Error m) = m"
| "message (TypeError m) = m"

text \<open>ToBoolean: the falsy values are \<^verbatim>\<open>undefined\<close>, \<^verbatim>\<open>null\<close>, \<^verbatim>\<open>false\<close>, \<^verbatim>\<open>0\<close> and \<^verbatim>\<open>""\<close>.\<close>

fun truthy :: "jsval \<Rightarrow> bool" where
  "truthy JUndefined = False"
| "truthy JNull = False"
| "truthy (JBool b) = b"
| "truthy (JNum n) = (n \<noteq> 0)"
| "truthy (JStr s) = (s \<noteq> [])"
| "truthy (JArr xs) = True"
| "truthy (JObj ps) = True"

text \<open>The operator \<^verbatim>\<open>a || b\<close> on values.\<close>

definition js_or :: "jsval \<Rightarrow> jsval \<Rightarrow> jsval" where
  "js_or a b = (if truthy a then a else b)"

text \<open>
  Property read \<^verbatim>\<open>v.k\<close>. On \<^verbatim>\<open>null\<close> and \<^verbatim>\<open>undefined\<close> the runtime throws a
  \<^verbatim>\<open>TypeError\<close> (the message is the engine's; V8's wording is used). On an object the
  own property is returned, \<^verbatim>\<open>undefined\<close> when there is none. Booleans, numbers,
  strings and arrays are read through their prototype, which has none of the property
  names the program reads (\<^verbatim>\<open>analysis\<close>, \<^verbatim>\<open>error\<close> and the nine report fields), so the
  read gives \<^verbatim>\<open>undefined\<close>.
\<close>

definition cannot_read :: "string \<Rightarrow> string \<Rightarrow> js_error" where
  "cannot_read what k =
     TypeError (''Cannot read properties of '' @ what @ '' (reading '' @ [CHR 0x27] @ k @ [CHR 0x27] @ '')'')"

fun get_prop :: "jsval \<Rightarrow> string \<Rightarrow> js_error + jsval" where
  "get_prop JUndefined k = Inl (cannot_read ''undefined'' k)"
| "get_prop JNull k = Inl (cannot_read ''null'' k)"
| "get_prop (JObj ps) k = Inr (case map_of ps k of None \<Rightarrow> JUndefined | Some v \<Rightarrow> v)"
| "get_prop v k = Inr JUndefined"

section \<open>The API client: normalising a report\<close>

text \<open>The defaults written in \<^verbatim>\<open>formatAnalysisData\<close>, one per field, in the order of the source.\<close>

definition report_defaults :: "(string \<times> jsval) list" where
  "report_defaults =
    [(''basic_info'', JObj []),
     (''missing_data'',
        JObj [(''columns_with_missing'', JArr []), (''total_missing_percentage'', JNum 0)]),
     (''duplicates'',
        JObj [(''total_duplicates'', JNum 0), (''percentage'', JNum 0),
              (''columns_contributing'', JArr [])]),
     (''data_quality'',
        JObj [(''completeness'', JNum 0), (''consistency'', JNum 0), (''validity'', JNum 0),
              (''uniqueness'', JNum 0)]),
     (''outliers'', JObj [(''columns_with_outliers'', JArr [])]),
     (''correlation_matrix'', JArr []),
     (''column_statistics'', JObj []),
     (''recommendations'',
        JObj [(''critical'', JArr []), (''moderate'', JArr []), (''optional'', JArr [])]),
     (''analysis_status'', JStr ''unknown'')]"


text \<open>One line \<^verbatim>\<open>k: analysis.k || d\<close> of the object literal.\<close>

definition field_or :: "jsval \<Rightarrow> string \<times> jsval \<Rightarrow> js_error + (string \<times> jsval)" where
  "field_or analysis kd =
     (case get_prop analysis (fst kd) of
        Inl e \<Rightarrow> Inl e
      | Inr v \<Rightarrow> Inr (fst kd, js_or v (snd kd)))"

text \<open>The lines of the literal are evaluated in order; the first that throws ends it.\<close>

fun fields_or :: "jsval \<Rightarrow> (string \<times> jsval) list \<Rightarrow> js_error + (string \<times> jsval) list" where
  "fields_or analysis [] = Inr []"
| "fields_or analysis (kd # kds) =
     (case field_or analysis kd of
        Inl e \<Rightarrow> Inl e
      | Inr p \<Rightarrow> (case fields_or analysis kds of Inl e \<Rightarrow> Inl e | Inr ps \<Rightarrow> Inr (p # ps)))"

text \<open>Line 140: \<^verbatim>\<open>const analysis = rawAnalysis.analysis || rawAnalysis\<close>.\<close>

definition analysis_of :: "jsval \<Rightarrow> js_error + jsval" where
  "analysis_of rawAnalysis =
     (case get_prop rawAnalysis ''analysis'' of
        Inl e \<Rightarrow> Inl e
      | Inr a \<Rightarrow> Inr (js_or a rawAnalysis))"

text \<open>The body of the \<^verbatim>\<open>try\<close> block of \<^verbatim>\<open>formatAnalysisData\<close>.\<close>

definition formatAnalysisData_try :: "jsval \<Rightarrow> js_error + jsval" where
  "formatAnalysisData_try rawAnalysis =
     (case analysis_of rawAnalysis of
        Inl e \<Rightarrow> Inl e
      | Inr analysis \<Rightarrow>
          (case fields_or analysis report_defaults of
             Inl e \<Rightarrow> Inl e
           | Inr ps \<Rightarrow> Inr (JObj ps)))"

text \<open>The \<^verbatim>\<open>catch\<close> replaces whatever was thrown by one fixed error.\<close>

definition formatAnalysisData :: "jsval \<Rightarrow> js_error + jsval" where
  "formatAnalysisData rawAnalysis =
     (case formatAnalysisData_try rawAnalysis of
        Inl e \<Rightarrow> Inl (Error (''Error al procesar los datos del an'' @ [CHR 0xE1] @ ''lisis''))
      | Inr r \<Rightarrow> Inr r)"

section \<open>Strings\<close>

text \<open>
  \<^verbatim>\<open>String.prototype.toLowerCase\<close> on code units below 256: the letters A to Z and the
  Latin-1 capitals (all of 0xC0 to 0xDE but the multiplication sign 0xD7) move up by 32.
\<close>

definition lower_unit :: "char \<Rightarrow> char" where
  "lower_unit c =
     (let n = (of_char c :: nat)
      in if (65 \<le> n \<and> n \<le> 90) \<or> (192 \<le> n \<and> n \<le> 222 \<and> n \<noteq> 215)
         then char_of (n + 32) else c)"

definition toLowerCase :: "string \<Rightarrow> string" where
  "toLowerCase s = map lower_unit s"

text \<open>\<^verbatim>\<open>s.endsWith(suffix)\<close> and \<^verbatim>\<open>s.includes(part)\<close>.\<close>

definition endsWith :: "string \<Rightarrow> string \<Rightarrow> bool" where
  "endsWith s suffix =
     (length suffix \<le> length s \<and> drop (length s - length suffix) s = suffix)"

fun includes_str :: "string \<Rightarrow> string \<Rightarrow> bool" where
  "includes_str [] part = (part = [])"
| "includes_str (c # cs) part = (take (length part) (c # cs) = part \<or> includes_str cs part)"

text \<open>
  Number to string, for the integers: decimal digits, with a sign (the form that
  JavaScript gives to integers of fewer than 22 digits).
\<close>

fun show_nat :: "nat \<Rightarrow> string" where
  "show_nat n =
     (if n < 10 then [char_of (48 + n)]
      else show_nat (n div 10) @ [char_of (48 + n mod 10)])"

definition show_int :: "int \<Rightarrow> string" where
  "show_int i = (if i < 0 then ''-'' @ show_nat (nat (- i)) else show_nat (nat i))"

fun join_comma :: "string list \<Rightarrow> string" where
  "join_comma [] = []"
| "join_comma [x] = x"
| "join_comma (x # y # ys) = x @ '','' @ join_comma (y # ys)"

text \<open>
  ToString. An array is the comma-separated strings of its elements, where \<^verbatim>\<open>null\<close>
  and \<^verbatim>\<open>undefined\<close> elements give the empty string; a plain object is
  \<^verbatim>\<open>[object Object]\<close>.
\<close>

fun js_to_string :: "jsval \<Rightarrow> string" where
  "js_to_string JUndefined = ''undefined''"
| "js_to_string JNull = ''null''"
| "js_to_string (JBool b) = (if b then ''true'' else ''false'')"
| "js_to_string (JNum n) = show_int n"
| "js_to_string (JStr s) = s"
| "js_to_string (JArr xs) =
     join_comma (map (\<lambda>x. if x = JUndefined \<or> x = JNull then [] else js_to_string x) xs)"
| "js_to_string (JObj ps) = ''[object Object]''"

text \<open>\<^verbatim>\<open>new Error(v)\<close>: the message is the string of \<^verbatim>\<open>v\<close>, and empty when \<^verbatim>\<open>v\<close> is \<^verbatim>\<open>undefined\<close>.\<close>

definition new_Error :: "jsval \<Rightarrow> js_error" where
  "new_Error v = Error (if v = JUndefined then [] else js_to_string v)"

section \<open>The API client: requests\<close>

text \<open>A browser \<^verbatim>\<open>File\<close>: the two properties the program reads.\<close>

record js_file =
  file_name :: string
  file_size :: nat

datatype http_method = GET | POST

datatype form_value = FileField js_file | TextField string

text \<open>
  A call of \<^verbatim>\<open>apiClient.get\<close> or \<^verbatim>\<open>apiClient.post\<close>: the path under the base URL, the
  headers and timeout of the client's configuration (lines 30 to 36) with the headers
  of the call laid over them, and the entries of the \<^verbatim>\<open>FormData\<close> body. The field
  \<open>req_method\<close> is the \<^verbatim>\<open>method\<close> of the request.
\<close>

record http_request =
  req_method :: http_method
  url :: string
  headers :: "(string \<times> string) list"
  form :: "(string \<times> form_value) list"
  timeout_ms :: nat

record http_response =
  status :: nat
  statusText :: string
  data :: jsval

text \<open>
  What becomes of a request: the server answers, or no answer arrives (also on timeout),
  or the request could not be set up. The network is the function that says which.
\<close>

datatype transport = Responded http_response | NoResponse | SetupFailed

type_synonym network = "http_request \<Rightarrow> transport"

text \<open>
  The error object that axios hands to a rejection handler: \<^verbatim>\<open>error.response\<close> is set
  when the server answered, \<^verbatim>\<open>error.request\<close> when the request was made.
\<close>

record axios_error =
  response :: "http_response option"
  request :: bool

text \<open>
  The library side of a call, from the documented behaviour of axios (it is not code of
  this repository): with the default \<^verbatim>\<open>validateStatus\<close> a response is a success exactly
  when its status is in 200 to 299.
\<close>

definition axios_settle :: "transport \<Rightarrow> axios_error + http_response" where
  "axios_settle t =
     (case t of
        Responded r \<Rightarrow>
          if 200 \<le> status r \<and> status r < 300 then Inr r
          else Inl \<lparr>response = Some r, request = True\<rparr>
      | NoResponse \<Rightarrow> Inl \<lparr>response = None, request = True\<rparr>
      | SetupFailed \<Rightarrow> Inl \<lparr>response = None, request = False\<rparr>)"

text \<open>
  The rejection handler of the response interceptor (lines 41 to 54). Every branch
  throws; reading \<^verbatim>\<open>error.response.data.error\<close> throws by itself when the body is
  \<^verbatim>\<open>null\<close>.
\<close>

definition interceptor_rejected :: "axios_error \<Rightarrow> js_error" where
  "interceptor_rejected err =
     (case response err of
        Some r \<Rightarrow>
          (case get_prop (data r) ''error'' of
             Inl e \<Rightarrow> e
           | Inr v \<Rightarrow>
               new_Error
                 (js_or v (JStr (''Error '' @ show_nat (status r) @ '': '' @ statusText r))))
      | None \<Rightarrow>
          if request err
          then Error (''No se pudo conectar con el servidor. Verifica que la API est'' @ [CHR 0xE9]
                      @ '' ejecut'' @ [CHR 0xE1] @ ''ndose.'')
          else Error (''Error en la configuraci'' @ [CHR 0xF3] @ ''n de la petici'' @ [CHR 0xF3]
                      @ ''n''))"

text \<open>The fulfilment handler is the identity (line 40).\<close>

definition apiClient_send :: "network \<Rightarrow> http_request \<Rightarrow> js_error + http_response" where
  "apiClient_send net req =
     (case axios_settle (net req) of
        Inl err \<Rightarrow> Inl (interceptor_rejected err)
      | Inr r \<Rightarrow> Inr r)"

definition MAX_SIZE :: nat where
  "MAX_SIZE = 50 * 1024 * 1024"

definition upload_request :: "js_file \<Rightarrow> string option \<Rightarrow> http_request" where
  "upload_request f name =
     \<lparr>req_method = POST, url = ''/upload/'',
      headers = [(''Content-Type'', ''multipart/form-data'')],
      form = [(''file'', FileField f),
              (''name'', TextField (case name of
                                      None \<Rightarrow> file_name f
                                    | Some n \<Rightarrow> if n = [] then file_name f else n))],
      timeout_ms = 30000\<rparr>"

text \<open>
  \<^verbatim>\<open>uploadAndAnalyzeDataset(file, name = null)\<close>, lines 58 to 99. The result comes with
  the list of the requests handed to \<^verbatim>\<open>apiClient\<close>, in order. The \<^verbatim>\<open>catch\<close> rethrows
  what it caught.
\<close>

definition uploadAndAnalyzeDataset ::
  "network \<Rightarrow> js_file option \<Rightarrow> string option \<Rightarrow> (js_error + jsval) \<times> http_request list" where
  "uploadAndAnalyzeDataset net file name =
     (case file of
        None \<Rightarrow> (Inl (Error (''No se proporcion'' @ [CHR 0xF3] @ '' archivo'')), [])
      | Some f \<Rightarrow>
          if \<not> endsWith (toLowerCase (file_name f)) ''.csv''
          then (Inl (Error ''Solo se admiten archivos CSV''), [])
          else if file_size f > MAX_SIZE
          then (Inl (Error (''El archivo es demasiado grande. M'' @ [CHR 0xE1] @ ''ximo 50MB'')), [])
          else
            (case apiClient_send net (upload_request f name) of
               Inl e \<Rightarrow> (Inl e, [upload_request f name])
             | Inr r \<Rightarrow> (Inr (data r), [upload_request f name])))"

definition health_request :: http_request where
  "health_request =
     \<lparr>req_method = GET, url = ''/health/'',
      headers = [(''Content-Type'', ''application/json'')],
      form = [], timeout_ms = 30000\<rparr>"

text \<open>\<^verbatim>\<open>checkAPIHealth\<close>, lines 126 to 134.\<close>

definition checkAPIHealth :: "network \<Rightarrow> (js_error + jsval) \<times> http_request list" where
  "checkAPIHealth net =
     (case apiClient_send net health_request of
        Inl e \<Rightarrow> (Inl e, [health_request])
      | Inr r \<Rightarrow> (Inr (data r), [health_request]))"

text \<open>\<^verbatim>\<open>testConnection\<close>, lines 160 to 167.\<close>

definition testConnection :: "network \<Rightarrow> (js_error + bool) \<times> http_request list" where
  "testConnection net =
     (case checkAPIHealth net of
        (Inr h, reqs) \<Rightarrow> (Inr True, reqs)
      | (Inl e, reqs) \<Rightarrow> (Inr False, reqs))"

section \<open>The dashboard view\<close>

text \<open>
  The state of the component \<^verbatim>\<open>DatasetDashboard\<close>, one field per \<^verbatim>\<open>useState\<close> hook
  (lines 9 to 14 of \<^verbatim>\<open>Dashboard.js\<close>); the hook \<^verbatim>\<open>file\<close> is the field
  \<open>selectedFile\<close>. \<^verbatim>\<open>null\<close> is \<open>None\<close>.
\<close>

datatype api_status = Unknown | Online | Offline

record view_state =
  datasetInfo :: "jsval option"
  loading :: bool
  error :: "string option"
  selectedFile :: "js_file option"
  apiStatus :: api_status
  uploadProgress :: nat

definition initial_state :: view_state where
  "initial_state =
     \<lparr>datasetInfo = None, loading = False, error = None, selectedFile = None,
      apiStatus = Unknown, uploadProgress = 0\<rparr>"

text \<open>
  \<^verbatim>\<open>handleFileUpload\<close>, lines 89 to 116. The argument is \<^verbatim>\<open>event.target.files\<close>, of which
  the handler takes the first.
\<close>

definition handleFileUpload :: "js_file list \<Rightarrow> view_state \<Rightarrow> view_state" where
  "handleFileUpload files s =
     (case files of
        [] \<Rightarrow> s
      | uploadedFile # rest \<Rightarrow>
          if \<not> endsWith (toLowerCase (file_name uploadedFile)) ''.csv''
          then s\<lparr>error := Some (''Por favor, sube un archivo CSV v'' @ [CHR 0xE1] @ ''lido'')\<rparr>
          else if file_size uploadedFile > MAX_SIZE
          then s\<lparr>error := Some (''El archivo es demasiado grande. M'' @ [CHR 0xE1] @ ''ximo 50MB'')\<rparr>
          else s\<lparr>selectedFile := Some uploadedFile, datasetInfo := None, error := None\<rparr>)"

text \<open>\<^verbatim>\<open>analyzeDataset\<close>, lines 30 to 87, block by block. Lines 41 to 44:\<close>

definition analyze_begin :: "view_state \<Rightarrow> view_state" where
  "analyze_begin s = s\<lparr>loading := True, error := None, uploadProgress := 0, datasetInfo := None\<rparr>"

text \<open>The \<^verbatim>\<open>catch\<close> block, lines 63 to 82.\<close>

definition friendly_message :: "js_error \<Rightarrow> string" where
  "friendly_message err =
     (let errorMessage = (if message err = [] then ''Error al analizar el dataset'' else message err)
      in if includes_str errorMessage ''500''
         then ''Error interno del servidor. Revisa la consola del backend para m'' @ [CHR 0xE1]
              @ ''s detalles.''
         else if includes_str errorMessage ''timeout''
         then ''El an'' @ [CHR 0xE1] @ ''lisis est'' @ [CHR 0xE1]
              @ '' tomando demasiado tiempo. Intenta con un archivo m'' @ [CHR 0xE1] @ ''s peque''
              @ [CHR 0xF1] @ ''o.''
         else if includes_str errorMessage ''decode''
         then ''Error de codificaci'' @ [CHR 0xF3] @ ''n. Guarda tu archivo CSV con codificaci''
              @ [CHR 0xF3] @ ''n UTF-8.''
         else errorMessage)"

definition analyze_catch :: "js_error \<Rightarrow> view_state \<Rightarrow> view_state" where
  "analyze_catch err s =
     (let s1 = s\<lparr>error := Some (friendly_message err)\<rparr>
      in if includes_str (message err) ''conectar'' \<or> includes_str (message err) ''servidor''
         then s1\<lparr>apiStatus := Offline\<rparr>
         else s1)"

text \<open>The \<^verbatim>\<open>finally\<close> block, lines 84 and 85.\<close>

definition analyze_finally :: "view_state \<Rightarrow> view_state" where
  "analyze_finally s = s\<lparr>loading := False, uploadProgress := 0\<rparr>"

text \<open>
  One run of the action. \<open>suspended\<close> is the state the view shows while the upload is
  awaited (\<open>None\<close> when the action returns before that), \<open>final\<close> the state when the
  action is over, \<open>upload_calls\<close> the arguments of each call of
  \<^verbatim>\<open>uploadAndAnalyzeDataset\<close>, and \<open>requests\<close> what reached \<^verbatim>\<open>apiClient\<close>.
\<close>

record analyze_run =
  suspended :: "view_state option"
  final :: view_state
  upload_calls :: "(js_file \<times> string) list"
  requests :: "http_request list"

definition analyzeDataset :: "network \<Rightarrow> view_state \<Rightarrow> analyze_run" where
  "analyzeDataset net s =
     (case selectedFile s of
        None \<Rightarrow>
          \<lparr>suspended = None,
           final = s\<lparr>error := Some ''Por favor, selecciona un archivo CSV''\<rparr>,
           upload_calls = [], requests = []\<rparr>
      | Some f \<Rightarrow>
          if apiStatus s = Offline
          then
            \<lparr>suspended = None,
             final = s\<lparr>error := Some (''No se puede conectar con la API. Verifica que el servidor est''
                                        @ [CHR 0xE9] @ '' ejecut'' @ [CHR 0xE1] @ ''ndose.'')\<rparr>,
             upload_calls = [], requests = []\<rparr>
          else
            (let s1 = analyze_begin s;
                 (result, reqs) = uploadAndAnalyzeDataset net (Some f) (Some (file_name f));
                 s2 = (case result of
                         Inl err \<Rightarrow> analyze_catch err s1
                       | Inr payload \<Rightarrow>
                           (case formatAnalysisData payload of
                              Inl err \<Rightarrow> analyze_catch err s1
                            | Inr formattedData \<Rightarrow>
                                s1\<lparr>datasetInfo := Some formattedData, apiStatus := Online\<rparr>))
             in \<lparr>suspended = Some s1, final = analyze_finally s2,
                 upload_calls = [(f, file_name f)], requests = reqs\<rparr>))"

section \<open>Case-insensitive suffix, as the specification words it\<close>

text \<open>
  The specification asks that the file name end in \<^verbatim>\<open>.csv\<close>, compared without regard to
  case: the name ends in one of the eight spellings of that suffix. The program tests
  \<^verbatim>\<open>name.toLowerCase().endsWith('.csv')\<close> instead; the two are shown to agree below.
\<close>

definition csv_suffixes :: "string list" where
  "csv_suffixes = [''.csv'', ''.csV'', ''.cSv'', ''.cSV'', ''.Csv'', ''.CsV'', ''.CSv'', ''.CSV'']"

definition ends_in_csv :: "string \<Rightarrow> bool" where
  "ends_in_csv n = list_ex (endsWith n) csv_suffixes"

section \<open>Auxiliary notions for the proofs\<close>

text \<open>The value of a property read that does not throw.\<close>

definition read_prop :: "jsval \<Rightarrow> string \<Rightarrow> jsval" where
  "read_prop v k = (case get_prop v k of Inl e \<Rightarrow> JUndefined | Inr x \<Rightarrow> x)"

text \<open>A field of the normalised report, computed from \<^verbatim>\<open>analysis\<close> and the field's default.\<close>

definition filled :: "jsval \<Rightarrow> string \<times> jsval \<Rightarrow> string \<times> jsval" where
  "filled a kd = (fst kd, js_or (read_prop a (fst kd)) (snd kd))"

text \<open>The number of a code unit.\<close>

definition unit_code :: "char \<Rightarrow> nat" where
  "unit_code c = of_char c"

section \<open>Sample inputs\<close>

text \<open>A network on which every request meets the same fate.\<close>

definition answering :: "transport \<Rightarrow> network" where
  "answering t req = t"

definition csv_2mb :: js_file where
  "csv_2mb = \<lparr>file_name = ''Ventas.CSV'', file_size = 2097152\<rparr>"

definition csv_at_limit :: js_file where
  "csv_at_limit = \<lparr>file_name = ''big.csv'', file_size = 52428800\<rparr>"

definition csv_over_limit :: js_file where
  "csv_over_limit = \<lparr>file_name = ''big.csv'', file_size = 52428801\<rparr>"

definition notes_txt :: js_file where
  "notes_txt = \<lparr>file_name = ''notes.txt'', file_size = 10\<rparr>"

definition invalid_csv_response :: http_response where
  "invalid_csv_response =
     \<lparr>status = 400, statusText = ''Bad Request'', data = JObj [(''error'', JStr ''Invalid CSV'')]\<rparr>"


definition nested_report :: jsval where
  "nested_report =
     JObj [(''analysis'',
            JObj [(''basic_info'', JObj [(''rows'', JNum 120), (''columns'', JNum 4)]),
                  (''correlation_matrix'', JNull),
                  (''analysis_status'', JStr ''completed'')])]"

definition report_response :: http_response where
  "report_response = \<lparr>status = 200, statusText = ''OK'', data = nested_report\<rparr>"

definition normalised_report :: jsval where
  "normalised_report =
     JObj [(''basic_info'', JObj [(''rows'', JNum 120), (''columns'', JNum 4)]),
           (''missing_data'',
              JObj [(''columns_with_missing'', JArr []), (''total_missing_percentage'', JNum 0)]),
           (''duplicates'',
              JObj [(''total_duplicates'', JNum 0), (''percentage'', JNum 0),
                    (''columns_contributing'', JArr [])]),
           (''data_quality'',
              JObj [(''completeness'', JNum 0), (''consistency'', JNum 0), (''validity'', JNum 0),
                    (''uniqueness'', JNum 0)]),
           (''outliers'', JObj [(''columns_with_outliers'', JArr [])]),
           (''correlation_matrix'', JArr []),
           (''column_statistics'', JObj []),
           (''recommendations'',
              JObj [(''critical'', JArr []), (''moderate'', JArr []), (''optional'', JArr [])]),
           (''analysis_status'', JStr ''completed'')]"

text \<open>A view that holds an earlier file, its report and an error message.\<close>

definition busy_state :: view_state where
  "busy_state =
     \<lparr>datasetInfo = Some (JObj report_defaults), loading = False,
      error = Some ''Error al analizar el dataset'',
      selectedFile = Some \<lparr>file_name = ''old.csv'', file_size = 7\<rparr>,
      apiStatus = Online, uploadProgress = 0\<rparr>"

text \<open>The view after a 2 MB CSV file was chosen, with the API known to be online.\<close>

definition ready_state :: view_state where
  "ready_state = (handleFileUpload [csv_2mb] initial_state)\<lparr>apiStatus := Online\<rparr>"

section \<open>Facts about values and strings\<close>

lemma get_prop_defined:
  "v \<noteq> JUndefined \<Longrightarrow> v \<noteq> JNull \<Longrightarrow> get_prop v k = Inr (read_prop v k)"
  by (cases v) (simp_all add: read_prop_def)

lemma truthy_defined: "truthy v \<Longrightarrow> v \<noteq> JUndefined \<and> v \<noteq> JNull"
  by (cases v) simp_all

lemma js_or_truthy: "truthy d \<Longrightarrow> truthy (js_or v d)"
  by (simp add: js_or_def)

lemma js_or_absorb: "truthy v \<Longrightarrow> js_or v d = v"
  by (simp add: js_or_def)

lemma endsWith_iff: "endsWith s suf \<longleftrightarrow> (\<exists>p. s = p @ suf)"
proof
  assume "endsWith s suf"
  then have "s = take (length s - length suf) s @ suf"
    by (metis append_take_drop_id endsWith_def)
  then show "\<exists>p. s = p @ suf" ..
next
  assume "\<exists>p. s = p @ suf"
  then show "endsWith s suf" by (auto simp: endsWith_def)
qed

lemma endsWith_map:
  "endsWith (map f n) suf \<longleftrightarrow> (\<exists>p x. n = p @ x \<and> map f x = suf)"
proof
  assume "endsWith (map f n) suf"
  then obtain q where "map f n = q @ suf"
    using endsWith_iff by blast
  then obtain us vs where "n = us @ vs" "suf = map f vs"
    unfolding map_eq_append_conv by blast
  then show "\<exists>p x. n = p @ x \<and> map f x = suf" by blast
next
  assume "\<exists>p x. n = p @ x \<and> map f x = suf"
  then obtain p x where "n = p @ x" "map f x = suf" by blast
  then have "map f n = map f p @ suf" by simp
  then show "endsWith (map f n) suf"
    using endsWith_iff by blast
qed

subsection \<open>Lower case and the suffix \<^verbatim>\<open>.csv\<close>\<close>

lemma unit_code_inj: "unit_code c = unit_code d \<longleftrightarrow> c = d"
  by (simp add: unit_code_def)

lemma unit_code_lower_unit:
  "unit_code (lower_unit c) =
     (if (65 \<le> unit_code c \<and> unit_code c \<le> 90) \<or>
         (192 \<le> unit_code c \<and> unit_code c \<le> 222 \<and> unit_code c \<noteq> 215)
      then unit_code c + 32 else unit_code c)"
  by (auto simp: lower_unit_def unit_code_def Let_def)

lemma lower_unit_is:
  "lower_unit c = l \<longleftrightarrow>
     (if (65 \<le> unit_code c \<and> unit_code c \<le> 90) \<or>
         (192 \<le> unit_code c \<and> unit_code c \<le> 222 \<and> unit_code c \<noteq> 215)
      then unit_code c + 32 else unit_code c) = unit_code l"
  using unit_code_inj[of "lower_unit c" l] by (simp only: unit_code_lower_unit)

lemma lower_unit_dot: "lower_unit c = CHR ''.'' \<longleftrightarrow> c = CHR ''.''"
proof -
  have "c = CHR ''.'' \<longleftrightarrow> unit_code c = 46"
    using unit_code_inj[of c "CHR ''.''"] by (simp add: unit_code_def)
  moreover have "unit_code (CHR ''.'') = 46" by (simp add: unit_code_def)
  ultimately show ?thesis by (auto simp: lower_unit_is)
qed

lemma lower_unit_letter:
  assumes "unit_code l = k" "unit_code u = k - 32" "97 \<le> k" "k \<le> 122"
  shows "lower_unit c = l \<longleftrightarrow> c = l \<or> c = u"
proof -
  have "c = l \<longleftrightarrow> unit_code c = k" "c = u \<longleftrightarrow> unit_code c = k - 32"
    using unit_code_inj[of c l] unit_code_inj[of c u] assms by auto
  then show ?thesis using assms by (auto simp: lower_unit_is)
qed

lemma lower_unit_c: "lower_unit x = CHR ''c'' \<longleftrightarrow> x = CHR ''c'' \<or> x = CHR ''C''"
  by (rule lower_unit_letter[where k = 99]) (simp_all add: unit_code_def)

lemma lower_unit_s: "lower_unit x = CHR ''s'' \<longleftrightarrow> x = CHR ''s'' \<or> x = CHR ''S''"
  by (rule lower_unit_letter[where k = 115]) (simp_all add: unit_code_def)

lemma lower_unit_v: "lower_unit x = CHR ''v'' \<longleftrightarrow> x = CHR ''v'' \<or> x = CHR ''V''"
  by (rule lower_unit_letter[where k = 118]) (simp_all add: unit_code_def)

lemma map_eq_four:
  "map f x = [a, b, c, d] \<longleftrightarrow>
     (\<exists>p q r s. x = [p, q, r, s] \<and> f p = a \<and> f q = b \<and> f r = c \<and> f s = d)"
  by (auto simp: map_eq_Cons_conv)

lemma map_eq_four_choices:
  assumes "\<And>x. f x = d \<longleftrightarrow> x = d"
    and "\<And>x. f x = c1 \<longleftrightarrow> x = c1 \<or> x = c2"
    and "\<And>x. f x = s1 \<longleftrightarrow> x = s1 \<or> x = s2"
    and "\<And>x. f x = v1 \<longleftrightarrow> x = v1 \<or> x = v2"
  shows "map f x = [d, c1, s1, v1] \<longleftrightarrow>
     x \<in> set [[d, c1, s1, v1], [d, c1, s1, v2], [d, c1, s2, v1], [d, c1, s2, v2],
              [d, c2, s1, v1], [d, c2, s1, v2], [d, c2, s2, v1], [d, c2, s2, v2]]"
  unfolding map_eq_four assms by auto

lemma toLowerCase_is_csv: "toLowerCase x = ''.csv'' \<longleftrightarrow> x \<in> set csv_suffixes"
  unfolding toLowerCase_def csv_suffixes_def
  by (rule map_eq_four_choices) (rule lower_unit_dot lower_unit_c lower_unit_s lower_unit_v)+

text \<open>The program's test is the specification's: the name ends in \<^verbatim>\<open>.csv\<close>, whatever the case.\<close>

lemma ends_in_csv_iff: "endsWith (toLowerCase n) ''.csv'' \<longleftrightarrow> ends_in_csv n"
proof -
  have "endsWith (toLowerCase n) ''.csv'' \<longleftrightarrow> (\<exists>p x. n = p @ x \<and> toLowerCase x = ''.csv'')"
    unfolding toLowerCase_def by (rule endsWith_map)
  also have "\<dots> \<longleftrightarrow> (\<exists>x \<in> set csv_suffixes. \<exists>p. n = p @ x)"
    unfolding toLowerCase_is_csv by blast
  also have "\<dots> \<longleftrightarrow> (\<exists>x \<in> set csv_suffixes. endsWith n x)"
    unfolding endsWith_iff ..
  also have "\<dots> \<longleftrightarrow> ends_in_csv n"
    unfolding ends_in_csv_def list_ex_iff ..
  finally show ?thesis .
qed

lemma ends_in_csv_Ventas: "ends_in_csv ''Ventas.CSV''"
  by (simp add: ends_in_csv_def csv_suffixes_def endsWith_def)

lemma ends_in_csv_big: "ends_in_csv ''big.csv''"
  by (simp add: ends_in_csv_def csv_suffixes_def endsWith_def)

lemma not_ends_in_csv_notes: "\<not> ends_in_csv ''notes.txt''"
  by (simp add: ends_in_csv_def csv_suffixes_def endsWith_def)

section \<open>Facts about the normalisation\<close>

lemma fields_or_map:
  "\<forall>kd \<in> set kds. field_or a kd = Inr (g kd) \<Longrightarrow> fields_or a kds = Inr (map g kds)"
  by (induction kds) simp_all

lemma fields_or_defined:
  assumes "a \<noteq> JUndefined" "a \<noteq> JNull"
  shows "fields_or a kds = Inr (map (filled a) kds)"
  by (rule fields_or_map) (simp add: field_or_def filled_def get_prop_defined[OF assms])

lemma analysis_of_defined:
  assumes "raw \<noteq> JUndefined" "raw \<noteq> JNull"
  shows "\<exists>a. analysis_of raw = Inr a \<and> a \<noteq> JUndefined \<and> a \<noteq> JNull"
  using assms truthy_defined
  by (auto simp: analysis_of_def js_or_def get_prop_defined[OF assms])

lemma formatAnalysisData_try_defined:
  assumes "raw \<noteq> JUndefined" "raw \<noteq> JNull"
  shows "\<exists>a. analysis_of raw = Inr a \<and> a \<noteq> JUndefined \<and> a \<noteq> JNull \<and>
           formatAnalysisData_try raw = Inr (JObj (map (filled a) report_defaults))"
proof -
  obtain a where a: "analysis_of raw = Inr a" "a \<noteq> JUndefined" "a \<noteq> JNull"
    using analysis_of_defined[OF assms] by blast
  then have "formatAnalysisData_try raw = Inr (JObj (map (filled a) report_defaults))"
    by (simp add: formatAnalysisData_try_def fields_or_defined)
  with a show ?thesis by blast
qed

lemma formatAnalysisData_try_throws:
  "raw = JUndefined \<or> raw = JNull \<Longrightarrow> \<exists>e. formatAnalysisData_try raw = Inl e"
  by (auto simp: formatAnalysisData_try_def analysis_of_def)

lemma formatAnalysisData_Inr:
  "formatAnalysisData raw = Inr y \<longleftrightarrow> formatAnalysisData_try raw = Inr y"
  by (simp add: formatAnalysisData_def split: sum.splits)

lemma distinct_report_fields: "distinct (map fst report_defaults)"
  by (simp add: report_defaults_def)

lemma truthy_report_defaults: "kd \<in> set report_defaults \<Longrightarrow> truthy (snd kd)"
  by (auto simp add: report_defaults_def)

lemma analysis_not_field: "''analysis'' \<notin> fst ` set report_defaults"
  by (simp add: report_defaults_def)

lemma fst_filled: "map fst (map (filled a) kds) = map fst kds"
  by (simp add: filled_def comp_def)

lemma map_of_filled:
  assumes "distinct (map fst kds)" "kd \<in> set kds"
  shows "map_of (map (filled a) kds) (fst kd) = Some (snd (filled a kd))"
proof -
  have "distinct (map fst (map (filled a) kds))"
    using assms(1) by (simp only: fst_filled)
  moreover have "(fst kd, snd (filled a kd)) \<in> set (map (filled a) kds)"
    using assms(2) by (force simp: filled_def)
  ultimately show ?thesis by (rule map_of_is_SomeI)
qed

lemma read_prop_filled:
  assumes "kd \<in> set report_defaults"
  shows "read_prop (JObj (map (filled a) report_defaults)) (fst kd) = snd (filled a kd)"
  using map_of_filled[OF distinct_report_fields assms] by (simp add: read_prop_def)

lemma analysis_of_filled:
  "analysis_of (JObj (map (filled a) report_defaults)) = Inr (JObj (map (filled a) report_defaults))"
proof -
  have "''analysis'' \<notin> fst ` set (map (filled a) report_defaults)"
    using analysis_not_field by (simp add: filled_def image_image)
  then have "map_of (map (filled a) report_defaults) ''analysis'' = None"
    by (simp only: map_of_eq_None_iff not_False_eq_True)
  then show ?thesis by (simp add: analysis_of_def js_or_def)
qed

lemma filled_filled:
  assumes "kd \<in> set report_defaults"
  shows "filled (JObj (map (filled a) report_defaults)) kd = filled a kd"
proof -
  have "truthy (snd (filled a kd))"
    using truthy_report_defaults[OF assms] by (simp add: filled_def js_or_truthy)
  then show ?thesis
    using read_prop_filled[OF assms, of a] by (simp add: filled_def js_or_absorb)
qed

lemma formatAnalysisData_try_filled:
  "formatAnalysisData_try (JObj (map (filled a) report_defaults)) =
     Inr (JObj (map (filled a) report_defaults))"
proof -
  have "map (filled (JObj (map (filled a) report_defaults))) report_defaults =
        map (filled a) report_defaults"
    by (rule map_cong[OF refl]) (rule filled_filled)
  then show ?thesis
    by (simp add: formatAnalysisData_try_def analysis_of_filled fields_or_defined)
qed

lemma formatAnalysisData_nested_report: "formatAnalysisData nested_report = Inr normalised_report"
  by (simp add: formatAnalysisData_def formatAnalysisData_try_def analysis_of_def js_or_def
      report_defaults_def field_or_def nested_report_def normalised_report_def)

section \<open>Facts about the client and the view\<close>


lemma upload_accepted_response:
  assumes "endsWith (toLowerCase (file_name f)) ''.csv''" "file_size f \<le> MAX_SIZE"
    and "net (upload_request f name) = Responded r" "200 \<le> status r \<and> status r < 300"
  shows "uploadAndAnalyzeDataset net (Some f) name = (Inr (data r), [upload_request f name])"
  using assms by (simp add: uploadAndAnalyzeDataset_def apiClient_send_def axios_settle_def)

lemma analyzeDataset_early:
  assumes "selectedFile s = None \<or> apiStatus s = Offline"
  shows "\<exists>m. m \<noteq> [] \<and>
          analyzeDataset net s =
            \<lparr>suspended = None, final = s\<lparr>error := Some m\<rparr>, upload_calls = [], requests = []\<rparr>"
proof (cases "selectedFile s")
  case None
  then have "analyzeDataset net s =
      \<lparr>suspended = None, final = s\<lparr>error := Some ''Por favor, selecciona un archivo CSV''\<rparr>,
       upload_calls = [], requests = []\<rparr>"
    by (simp add: analyzeDataset_def)
  then show ?thesis by blast
next
  case (Some f)
  with assms have "analyzeDataset net s =
      \<lparr>suspended = None,
       final = s\<lparr>error := Some (''No se puede conectar con la API. Verifica que el servidor est''
                                @ [CHR 0xE9] @ '' ejecut'' @ [CHR 0xE1] @ ''ndose.'')\<rparr>,
       upload_calls = [], requests = []\<rparr>"
    by (simp add: analyzeDataset_def)
  then show ?thesis by blast
qed

lemma analyzeDataset_running:
  assumes "selectedFile s = Some f" "apiStatus s \<noteq> Offline"
  shows "analyzeDataset net s =
    \<lparr>suspended = Some (analyze_begin s),
     final = analyze_finally
       (case fst (uploadAndAnalyzeDataset net (Some f) (Some (file_name f))) of
          Inl err \<Rightarrow> analyze_catch err (analyze_begin s)
        | Inr payload \<Rightarrow>
            (case formatAnalysisData payload of
               Inl err \<Rightarrow> analyze_catch err (analyze_begin s)
             | Inr formattedData \<Rightarrow>
                 (analyze_begin s)\<lparr>datasetInfo := Some formattedData, apiStatus := Online\<rparr>)),
     upload_calls = [(f, file_name f)],
     requests = snd (uploadAndAnalyzeDataset net (Some f) (Some (file_name f)))\<rparr>"
  using assms by (simp add: analyzeDataset_def Let_def split: prod.splits)

lemma ready_state_eq:
  "ready_state =
     \<lparr>datasetInfo = None, loading = False, error = None, selectedFile = Some csv_2mb,
      apiStatus = Online, uploadProgress = 0\<rparr>"
  using ends_in_csv_Ventas
  by (simp add: ready_state_def handleFileUpload_def initial_state_def csv_2mb_def MAX_SIZE_def
      ends_in_csv_iff)

lemma upload_report_response:
  "uploadAndAnalyzeDataset (answering (Responded report_response)) (Some csv_2mb)
     (Some (file_name csv_2mb)) =
   (Inr nested_report, [upload_request csv_2mb (Some (file_name csv_2mb))])"
proof -
  have "uploadAndAnalyzeDataset (answering (Responded report_response)) (Some csv_2mb)
     (Some (file_name csv_2mb)) =
     (Inr (data report_response), [upload_request csv_2mb (Some (file_name csv_2mb))])"
    using ends_in_csv_Ventas
    by (intro upload_accepted_response)
      (simp_all add: ends_in_csv_iff csv_2mb_def MAX_SIZE_def answering_def report_response_def)
  then show ?thesis by (simp add: report_response_def)
qed

section \<open>The claims\<close>

subsection \<open>Normalising a report\<close>



text \<open>
  C2, as stated, says that \<^verbatim>\<open>formatAnalysisData\<close> throws on every input that is not an
  object, numbers, strings and booleans among them. It does not: reading a property
  of such a value gives \<^verbatim>\<open>undefined\<close>, so the result is the report of all defaults.
\<close>

theorem formatAnalysisData_primitive_returns:
  "formatAnalysisData (JNum 5) = Inr (JObj report_defaults) \<and>
   formatAnalysisData (JStr ''csv'') = Inr (JObj report_defaults) \<and>
   formatAnalysisData (JBool True) = Inr (JObj report_defaults)"
  by (simp add: formatAnalysisData_def formatAnalysisData_try_def analysis_of_def js_or_def
      report_defaults_def field_or_def)

text \<open>
  C2, amended. \<^verbatim>\<open>formatAnalysisData\<close> throws exactly when its input is \<^verbatim>\<open>null\<close> or
  \<^verbatim>\<open>undefined\<close>, and what it throws then is its own error; on every other input,
  objects, arrays, numbers, strings and booleans, it returns.
\<close>

theorem formatAnalysisData_throws_iff:
  "(v = JUndefined \<or> v = JNull \<longrightarrow>
      formatAnalysisData v =
        Inl (Error (''Error al procesar los datos del an'' @ [CHR 0xE1] @ ''lisis''))) \<and>
   (v \<noteq> JUndefined \<and> v \<noteq> JNull \<longrightarrow> \<not> isl (formatAnalysisData v))"
proof (intro conjI impI)
  assume "v = JUndefined \<or> v = JNull"
  then obtain e where "formatAnalysisData_try v = Inl e"
    using formatAnalysisData_try_throws by blast
  then show "formatAnalysisData v =
      Inl (Error (''Error al procesar los datos del an'' @ [CHR 0xE1] @ ''lisis''))"
    by (simp add: formatAnalysisData_def)
next
  assume "v \<noteq> JUndefined \<and> v \<noteq> JNull"
  then obtain y where "formatAnalysisData_try v = Inr y"
    using formatAnalysisData_try_defined[of v] by blast
  then show "\<not> isl (formatAnalysisData v)"
    by (simp add: formatAnalysisData_def)
qed

theorem formatAnalysisData_throws_iff_witness:
  "formatAnalysisData JNull =
     Inl (Error (''Error al procesar los datos del an'' @ [CHR 0xE1] @ ''lisis'')) \<and>
   \<not> isl (formatAnalysisData (JArr []))"
  using formatAnalysisData_throws_iff[of JNull] formatAnalysisData_throws_iff[of "JArr []"]
  by simp

text \<open>
  C9. \<^verbatim>\<open>formatAnalysisData\<close> is idempotent: applied to a report it returned, it returns
  that report again.
\<close>

theorem formatAnalysisData_idempotent:
  assumes "formatAnalysisData x = Inr y"
  shows "formatAnalysisData y = Inr y"
proof -
  have t: "formatAnalysisData_try x = Inr y"
    using assms by (simp add: formatAnalysisData_Inr)
  then have "x \<noteq> JUndefined" "x \<noteq> JNull"
    using formatAnalysisData_try_throws[of x] by auto
  then obtain a where "formatAnalysisData_try x = Inr (JObj (map (filled a) report_defaults))"
    using formatAnalysisData_try_defined by blast
  with t have "y = JObj (map (filled a) report_defaults)" by simp
  then show ?thesis
    by (simp add: formatAnalysisData_Inr formatAnalysisData_try_filled)
qed

theorem formatAnalysisData_idempotent_witness:
  "formatAnalysisData nested_report = Inr normalised_report \<and>
   formatAnalysisData normalised_report = Inr normalised_report"
  using formatAnalysisData_idempotent[of nested_report normalised_report]
    formatAnalysisData_nested_report
  by simp

subsection \<open>Validation before the upload\<close>

text \<open>
  C3. For every file whose name does not end in \<^verbatim>\<open>.csv\<close>, compared without regard to
  case, \<^verbatim>\<open>uploadAndAnalyzeDataset\<close> fails with an error that carries a readable reason,
  and no request has been handed to the HTTP client.
\<close>

theorem upload_rejects_non_csv:
  assumes "\<not> ends_in_csv (file_name f)"
  shows "uploadAndAnalyzeDataset net (Some f) name =
           (Inl (Error ''Solo se admiten archivos CSV''), [])"
  using assms by (simp add: uploadAndAnalyzeDataset_def ends_in_csv_iff)

theorem upload_rejects_non_csv_witness:
  "uploadAndAnalyzeDataset (answering NoResponse) (Some notes_txt) None =
     (Inl (Error ''Solo se admiten archivos CSV''), [])"
  using upload_rejects_non_csv[of notes_txt "answering NoResponse" None] not_ends_in_csv_notes
  by (simp add: notes_txt_def)

text \<open>
  C4. A \<^verbatim>\<open>.csv\<close> file of at most 52,428,800 bytes, so one of exactly that size, passes the
  size check: the upload request is handed to the HTTP client and the outcome of the call
  is the outcome of that request. A larger file, so one of 52,428,801 bytes, fails with
  an error, and no request has been handed to the client.
\<close>

theorem upload_size_limit:
  assumes "ends_in_csv (file_name f)"
  shows "(file_size f \<le> 52428800 \<longrightarrow>
            uploadAndAnalyzeDataset net (Some f) name =
              (case apiClient_send net (upload_request f name) of
                 Inl e \<Rightarrow> Inl e
               | Inr r \<Rightarrow> Inr (data r),
               [upload_request f name])) \<and>
         (file_size f > 52428800 \<longrightarrow>
            uploadAndAnalyzeDataset net (Some f) name =
              (Inl (Error (''El archivo es demasiado grande. M'' @ [CHR 0xE1] @ ''ximo 50MB'')), []))"
  using assms
  by (simp add: uploadAndAnalyzeDataset_def MAX_SIZE_def ends_in_csv_iff split: sum.splits)

theorem upload_size_limit_witness:
  "snd (uploadAndAnalyzeDataset (answering NoResponse) (Some csv_at_limit) None) =
     [upload_request csv_at_limit None] \<and>
   uploadAndAnalyzeDataset (answering NoResponse) (Some csv_over_limit) None =
     (Inl (Error (''El archivo es demasiado grande. M'' @ [CHR 0xE1] @ ''ximo 50MB'')), [])"
  using upload_size_limit[of csv_at_limit "answering NoResponse" None]
    upload_size_limit[of csv_over_limit "answering NoResponse" None] ends_in_csv_big
  by (simp add: csv_at_limit_def csv_over_limit_def)

subsection \<open>The connectivity probe\<close>

text \<open>
  C5. \<^verbatim>\<open>testConnection\<close> never throws and returns a boolean: \<^verbatim>\<open>true\<close> exactly when the
  health check returns, which is when the server answers the health request with a
  status in 200 to 299, and \<^verbatim>\<open>false\<close> exactly when the health check throws, whatever
  the failure: a status outside that range, no answer, or a request that could not be
  set up.
\<close>

theorem testConnection_boolean:
  "fst (testConnection net) =
     Inr (case net health_request of
            Responded r \<Rightarrow> 200 \<le> status r \<and> status r < 300
          | NoResponse \<Rightarrow> False
          | SetupFailed \<Rightarrow> False) \<and>
   (fst (testConnection net) = Inr True \<longleftrightarrow> \<not> isl (fst (checkAPIHealth net))) \<and>
   (fst (testConnection net) = Inr False \<longleftrightarrow> isl (fst (checkAPIHealth net)))"
  by (auto simp: testConnection_def checkAPIHealth_def apiClient_send_def axios_settle_def
      split: transport.splits sum.splits)

theorem testConnection_boolean_witness:
  "fst (testConnection (answering NoResponse)) = Inr False \<and>
   fst (testConnection (answering SetupFailed)) = Inr False \<and>
   fst (testConnection (answering (Responded invalid_csv_response))) = Inr False \<and>
   fst (testConnection (answering (Responded report_response))) = Inr True"
  using testConnection_boolean[of "answering NoResponse"]
    testConnection_boolean[of "answering SetupFailed"]
    testConnection_boolean[of "answering (Responded invalid_csv_response)"]
    testConnection_boolean[of "answering (Responded report_response)"]
  by (simp add: answering_def invalid_csv_response_def report_response_def)

subsection \<open>The message of a server error\<close>




subsection \<open>The view\<close>

text \<open>
  C7. Given a file that is not a CSV file or is larger than 52,428,800 bytes, the file
  selection handler sets an error message and changes nothing else of the state: the
  selected file and the stored report stay. Given a CSV file within the size limit, it
  records the file as selected and clears the stored report and the error message.
\<close>

theorem handleFileUpload_frame:
  "(\<not> ends_in_csv (file_name f) \<or> file_size f > 52428800 \<longrightarrow>
      (\<exists>m. m \<noteq> [] \<and> handleFileUpload (f # rest) s = s\<lparr>error := Some m\<rparr>)) \<and>
   (ends_in_csv (file_name f) \<and> file_size f \<le> 52428800 \<longrightarrow>
      handleFileUpload (f # rest) s = s\<lparr>selectedFile := Some f, datasetInfo := None, error := None\<rparr>)"
proof (intro conjI impI)
  assume bad: "\<not> ends_in_csv (file_name f) \<or> file_size f > 52428800"
  show "\<exists>m. m \<noteq> [] \<and> handleFileUpload (f # rest) s = s\<lparr>error := Some m\<rparr>"
  proof (cases "ends_in_csv (file_name f)")
    case False
    then have "handleFileUpload (f # rest) s =
        s\<lparr>error := Some (''Por favor, sube un archivo CSV v'' @ [CHR 0xE1] @ ''lido'')\<rparr>"
      by (simp add: handleFileUpload_def ends_in_csv_iff)
    then show ?thesis by blast
  next
    case True
    with bad have "handleFileUpload (f # rest) s =
        s\<lparr>error := Some (''El archivo es demasiado grande. M'' @ [CHR 0xE1] @ ''ximo 50MB'')\<rparr>"
      by (simp add: handleFileUpload_def MAX_SIZE_def ends_in_csv_iff)
    then show ?thesis by blast
  qed
next
  assume "ends_in_csv (file_name f) \<and> file_size f \<le> 52428800"
  then show "handleFileUpload (f # rest) s =
      s\<lparr>selectedFile := Some f, datasetInfo := None, error := None\<rparr>"
    by (simp add: handleFileUpload_def MAX_SIZE_def ends_in_csv_iff)
qed

theorem handleFileUpload_frame_witness:
  "handleFileUpload [notes_txt] busy_state =
     busy_state\<lparr>error := Some (''Por favor, sube un archivo CSV v'' @ [CHR 0xE1] @ ''lido'')\<rparr> \<and>
   handleFileUpload [csv_over_limit] busy_state =
     busy_state\<lparr>error := Some (''El archivo es demasiado grande. M'' @ [CHR 0xE1] @ ''ximo 50MB'')\<rparr> \<and>
   handleFileUpload [csv_2mb] busy_state =
     busy_state\<lparr>selectedFile := Some csv_2mb, datasetInfo := None, error := None\<rparr>"
  using handleFileUpload_frame[of notes_txt "[]" busy_state]
    handleFileUpload_frame[of csv_over_limit "[]" busy_state]
    handleFileUpload_frame[of csv_2mb "[]" busy_state]
    not_ends_in_csv_notes ends_in_csv_Ventas ends_in_csv_big
  by (simp add: handleFileUpload_def notes_txt_def csv_over_limit_def csv_2mb_def MAX_SIZE_def
      ends_in_csv_iff)

text \<open>
  C8. With no file selected, or with the API known to be offline, the analyze action
  only sets an error message: it does not suspend, \<^verbatim>\<open>uploadAndAnalyzeDataset\<close> is not
  called and no request is made. Otherwise it sets the loading flag and clears the
  error and the report (the state shown while the upload is awaited), calls
  \<^verbatim>\<open>uploadAndAnalyzeDataset\<close> once, with the file and its name, and, when the upload
  returns a payload that \<^verbatim>\<open>formatAnalysisData\<close> normalises, ends with the normalised
  report stored, the API online, the loading flag down and no error.
\<close>

theorem analyzeDataset_contract:
  "(selectedFile s = None \<or> apiStatus s = Offline \<longrightarrow>
      (\<exists>m. m \<noteq> [] \<and> final (analyzeDataset net s) = s\<lparr>error := Some m\<rparr>) \<and>
      suspended (analyzeDataset net s) = None \<and>
      upload_calls (analyzeDataset net s) = [] \<and>
      requests (analyzeDataset net s) = []) \<and>
   (selectedFile s = Some f \<and> apiStatus s \<noteq> Offline \<longrightarrow>
      suspended (analyzeDataset net s) =
        Some (s\<lparr>loading := True, error := None, uploadProgress := 0, datasetInfo := None\<rparr>) \<and>
      upload_calls (analyzeDataset net s) = [(f, file_name f)] \<and>
      requests (analyzeDataset net s) =
        snd (uploadAndAnalyzeDataset net (Some f) (Some (file_name f))) \<and>
      (\<forall>payload report.
         fst (uploadAndAnalyzeDataset net (Some f) (Some (file_name f))) = Inr payload \<and>
         formatAnalysisData payload = Inr report \<longrightarrow>
         final (analyzeDataset net s) =
           s\<lparr>datasetInfo := Some report, apiStatus := Online, loading := False, error := None,
             uploadProgress := 0\<rparr>))"
proof (intro conjI impI allI)
  assume "selectedFile s = None \<or> apiStatus s = Offline"
  then obtain m where m: "m \<noteq> []" "analyzeDataset net s =
      \<lparr>suspended = None, final = s\<lparr>error := Some m\<rparr>, upload_calls = [], requests = []\<rparr>"
    using analyzeDataset_early by blast
  from m show "\<exists>m. m \<noteq> [] \<and> final (analyzeDataset net s) = s\<lparr>error := Some m\<rparr>"
    by auto
  from m show "suspended (analyzeDataset net s) = None" by simp
  from m show "upload_calls (analyzeDataset net s) = []" by simp
  from m show "requests (analyzeDataset net s) = []" by simp
next
  assume "selectedFile s = Some f \<and> apiStatus s \<noteq> Offline"
  then have run: "selectedFile s = Some f" "apiStatus s \<noteq> Offline" by simp_all
  note eq = analyzeDataset_running[OF run, of net]
  show "suspended (analyzeDataset net s) =
      Some (s\<lparr>loading := True, error := None, uploadProgress := 0, datasetInfo := None\<rparr>)"
    by (simp add: eq analyze_begin_def)
  show "upload_calls (analyzeDataset net s) = [(f, file_name f)]"
    by (simp add: eq)
  show "requests (analyzeDataset net s) =
      snd (uploadAndAnalyzeDataset net (Some f) (Some (file_name f)))"
    by (simp add: eq)
  fix payload report
  assume "fst (uploadAndAnalyzeDataset net (Some f) (Some (file_name f))) = Inr payload \<and>
      formatAnalysisData payload = Inr report"
  then show "final (analyzeDataset net s) =
      s\<lparr>datasetInfo := Some report, apiStatus := Online, loading := False, error := None,
        uploadProgress := 0\<rparr>"
    by (simp add: eq analyze_begin_def analyze_finally_def)
qed

theorem analyzeDataset_contract_witness:
  "upload_calls (analyzeDataset (answering (Responded report_response)) initial_state) = [] \<and>
   requests (analyzeDataset (answering (Responded report_response)) (ready_state\<lparr>apiStatus := Offline\<rparr>)) = [] \<and>
   suspended (analyzeDataset (answering (Responded report_response)) ready_state) =
     Some (ready_state\<lparr>loading := True\<rparr>) \<and>
   final (analyzeDataset (answering (Responded report_response)) ready_state) =
     ready_state\<lparr>datasetInfo := Some normalised_report\<rparr>"
proof -
  let ?net = "answering (Responded report_response)"
  have 1: "upload_calls (analyzeDataset ?net initial_state) = []"
    using analyzeDataset_contract[where s = initial_state and net = ?net]
    by (simp add: initial_state_def)
  have 2: "requests (analyzeDataset ?net (ready_state\<lparr>apiStatus := Offline\<rparr>)) = []"
    using analyzeDataset_contract[where s = "ready_state\<lparr>apiStatus := Offline\<rparr>" and net = ?net]
    by simp
  have sel: "selectedFile ready_state = Some csv_2mb \<and> apiStatus ready_state \<noteq> Offline"
    by (simp add: ready_state_eq)
  have up: "fst (uploadAndAnalyzeDataset ?net (Some csv_2mb) (Some (file_name csv_2mb))) =
      Inr nested_report \<and> formatAnalysisData nested_report = Inr normalised_report"
    by (simp add: upload_report_response formatAnalysisData_nested_report)
  note c = analyzeDataset_contract[where s = ready_state and f = csv_2mb and net = ?net]
  have 3: "suspended (analyzeDataset ?net ready_state) =
      Some (ready_state\<lparr>loading := True, error := None, uploadProgress := 0, datasetInfo := None\<rparr>)"
    using c sel by blast
  have 4: "final (analyzeDataset ?net ready_state) =
      ready_state\<lparr>datasetInfo := Some normalised_report, apiStatus := Online, loading := False,
        error := None, uploadProgress := 0\<rparr>"
    using c sel up by blast
  from 1 2 3 4 show ?thesis by (simp add: ready_state_eq)
qed

text \<open>
  C10. Every run of the analyze action that reaches the upload, whether the upload
  returns or throws and whether the payload can be normalised or not, ends with the
  loading flag down and the upload progress at 0.
\<close>

theorem analyzeDataset_settles:
  assumes "suspended (analyzeDataset net s) = Some s1"
  shows "loading (final (analyzeDataset net s)) = False \<and>
         uploadProgress (final (analyzeDataset net s)) = 0"
proof -
  have "\<not> (selectedFile s = None \<or> apiStatus s = Offline)"
  proof
    assume "selectedFile s = None \<or> apiStatus s = Offline"
    then obtain m where "analyzeDataset net s =
        \<lparr>suspended = None, final = s\<lparr>error := Some m\<rparr>, upload_calls = [], requests = []\<rparr>"
      using analyzeDataset_early by blast
    with assms show False by simp
  qed
  then obtain f where "selectedFile s = Some f" "apiStatus s \<noteq> Offline"
    by auto
  then show ?thesis
    by (simp add: analyzeDataset_running analyze_finally_def)
qed

theorem analyzeDataset_settles_witness:
  "suspended (analyzeDataset (answering NoResponse) (ready_state\<lparr>uploadProgress := 40\<rparr>)) =
     Some (ready_state\<lparr>loading := True\<rparr>) \<and>
   loading (final (analyzeDataset (answering NoResponse) (ready_state\<lparr>uploadProgress := 40\<rparr>))) = False \<and>
   uploadProgress (final (analyzeDataset (answering NoResponse) (ready_state\<lparr>uploadProgress := 40\<rparr>))) = 0"
proof -
  let ?s = "ready_state\<lparr>uploadProgress := 40\<rparr>"
  have "suspended (analyzeDataset (answering NoResponse) ?s) = Some (analyze_begin ?s)"
    using analyzeDataset_running[of ?s csv_2mb "answering NoResponse"]
    by (simp add: ready_state_eq)
  then have s: "suspended (analyzeDataset (answering NoResponse) ?s) =
      Some (ready_state\<lparr>loading := True\<rparr>)"
    by (simp add: analyze_begin_def ready_state_eq)
  from analyzeDataset_settles[OF s] s show ?thesis by simp
qed

end
